theory Spec2Isabelle
  imports Complex_Main "HOL-Library.Product_Lexorder" "HOL-Library.AList"
begin

section \<open>Python values and exceptions\<close>

text \<open>
  The exceptions the modelled methods can raise. A method that can raise returns
  \<open>py_error + 'a\<close>, with \<open>Inl\<close> for the exception; a method that mutates \<open>self\<close>
  takes the object's fields and returns them updated, also when it raises.
\<close>

datatype py_error =
    NameError | TypeError | ValueError | KeyError | AttributeError
  | OverflowError

text \<open>
  What \<open>yaml.safe_load\<close> can return: scalars, lists and dicts. A dict is an association
  list in insertion order. Floats, here and for temperatures and hours, are rationals:
  every finite float is one, and the comparisons of the code are the same on them.
\<close>

datatype yaml =
    YNone
  | YBool bool
  | YInt int
  | YFloat rat
  | YStr string
  | YList "yaml list"
  | YDict "(yaml \<times> yaml) list"

text \<open>\<open>yaml.safe_load\<close> is a library call; it either raises \<open>yaml.YAMLError\<close> or returns a value.\<close>

datatype yaml_result = YAMLError | Loaded yaml

text \<open>Python truthiness (\<open>if x:\<close>) of such a value.\<close>

fun truthy :: "yaml \<Rightarrow> bool" where
  "truthy YNone = False"
| "truthy (YBool b) = b"
| "truthy (YInt i) = (i \<noteq> 0)"
| "truthy (YFloat q) = (q \<noteq> 0)"
| "truthy (YStr s) = (s \<noteq> [])"
| "truthy (YList xs) = (xs \<noteq> [])"
| "truthy (YDict kvs) = (kvs \<noteq> [])"

text \<open>\<open>d.get(key)\<close> and \<open>key in d\<close> for a string key.\<close>

definition dict_get :: "(yaml \<times> yaml) list \<Rightarrow> string \<Rightarrow> yaml option" where
  "dict_get kvs key = map_of kvs (YStr key)"

section \<open>Dates and times\<close>

text \<open>
  A \<open>datetime.time\<close> is (hour, minute, second, microsecond), compared lexicographically.
  A \<open>datetime.datetime\<close> is the proleptic Gregorian ordinal of its date
  (\<open>date.toordinal()\<close>) and its time of day.
\<close>

type_synonym pytime = "nat \<times> nat \<times> nat \<times> nat"

record pydatetime =
  date_ordinal :: nat
  time_part :: pytime

definition dt_less :: "pydatetime \<Rightarrow> pydatetime \<Rightarrow> bool" where
  "dt_less a b = ((date_ordinal a, time_part a) < (date_ordinal b, time_part b))"

text \<open>\<open>now.strftime("%A").lower()\<close>: \<open>date.weekday()\<close> is \<open>(toordinal() + 6) % 7\<close>, Monday 0.\<close>

definition weekday :: "pydatetime \<Rightarrow> nat" where
  "weekday d = (date_ordinal d + 6) mod 7"

definition day_name :: "pydatetime \<Rightarrow> string" where
  "day_name d =
     [''monday'', ''tuesday'', ''wednesday'', ''thursday'', ''friday'', ''saturday'', ''sunday'']
       ! weekday d"

subsection \<open>\<open>datetime.strptime(s, "%H:%M").time()\<close>\<close>

text \<open>
  \<open>strptime\<close> turns the format into the regular expression
  \<open>(2[0-3]|[0-1]\d|\d):([0-5]\d|\d)\<close>, matches it at the start of the string and raises
  \<open>ValueError\<close> when it does not match or when unconverted data remains.
\<close>

definition is_digit :: "char \<Rightarrow> bool" where
  "is_digit c = (c \<in> set ''0123456789'')"

definition digit_val :: "char \<Rightarrow> nat" where
  "digit_val c = of_char c - 48"

definition parse_minute :: "string \<Rightarrow> nat option" where
  "parse_minute r =
     (case r of
        [] \<Rightarrow> None
      | [m] \<Rightarrow> if is_digit m then Some (digit_val m) else None
      | m1 # m2 # ms \<Rightarrow>
          if m1 \<in> set ''012345'' \<and> is_digit m2 \<and> ms = []
          then Some (10 * digit_val m1 + digit_val m2) else None)"

definition strptime_HM :: "string \<Rightarrow> (nat \<times> nat) option" where
  "strptime_HM s =
     (case s of
        h1 # h2 # c # r \<Rightarrow>
          if ((h1 = CHR ''2'' \<and> h2 \<in> set ''0123'') \<or> (h1 \<in> set ''01'' \<and> is_digit h2))
             \<and> c = CHR '':''
          then map_option (\<lambda>m. (10 * digit_val h1 + digit_val h2, m)) (parse_minute r)
          else if is_digit h1 \<and> h2 = CHR '':''
          then map_option (\<lambda>m. (digit_val h1, m)) (parse_minute (c # r))
          else None
      | _ \<Rightarrow> None)"

text \<open>\<open>Schedule._parse_time\<close>; a value that is not a string makes \<open>strptime\<close> raise \<open>TypeError\<close>.\<close>

definition parse_time :: "yaml \<Rightarrow> py_error + pytime" where
  "parse_time time_str =
     (case time_str of
        YStr s \<Rightarrow>
          (case strptime_HM s of
             None \<Rightarrow> Inl ValueError
           | Some (h, m) \<Rightarrow> Inr (h, m, 0, 0))
      | _ \<Rightarrow> Inl TypeError)"

section \<open>schedule.py: class Schedule\<close>

record schedule_obj =
  schedule :: "(yaml \<times> yaml) list option"
  override_active :: bool
  override_until :: "pydatetime option"

subsection \<open>\<open>Schedule._parse_schedule\<close>\<close>

text \<open>The inner loop's test: \<open>isinstance(event, dict) and "time" in event\<close>.\<close>

definition event_ok :: "yaml \<Rightarrow> bool" where
  "event_ok event = (case event of YDict kvs \<Rightarrow> dict_get kvs ''time'' \<noteq> None | _ \<Rightarrow> False)"

text \<open>
  The loop over \<open>schedule.items()\<close>: \<open>False\<close> stands for the early \<open>return None\<close>
  of either check, \<open>True\<close> for running through.
\<close>

fun check_days :: "(yaml \<times> yaml) list \<Rightarrow> bool" where
  "check_days [] = True"
| "check_days ((day, events) # rest) =
     (case events of
        YList evs \<Rightarrow> if list_all event_ok evs then check_days rest else False
      | _ \<Rightarrow> False)"

definition parse_schedule ::
  "(string \<Rightarrow> yaml_result) \<Rightarrow> string option \<Rightarrow> (yaml \<times> yaml) list option" where
  "parse_schedule safe_load schedule_yaml =
     (case schedule_yaml of
        None \<Rightarrow> None
      | Some text \<Rightarrow>
          if text = [] then None
          else (case safe_load text of
                  YAMLError \<Rightarrow> None
                | Loaded (YDict items) \<Rightarrow> if check_days items then Some items else None
                | Loaded _ \<Rightarrow> None))"

text \<open>\<open>Schedule.__init__\<close>.\<close>

definition Schedule_init :: "(string \<Rightarrow> yaml_result) \<Rightarrow> string option \<Rightarrow> schedule_obj" where
  "Schedule_init safe_load schedule_yaml =
     \<lparr>schedule = parse_schedule safe_load schedule_yaml,
      override_active = False, override_until = None\<rparr>"

subsection \<open>\<open>Schedule.set_override\<close>\<close>

definition set_override :: "schedule_obj \<Rightarrow> pydatetime \<Rightarrow> schedule_obj" where
  "set_override self until = self\<lparr>override_active := True, override_until := Some until\<rparr>"

subsection \<open>\<open>Schedule.get_current_setpoint\<close>\<close>

text \<open>\<open>self._parse_time(x["time"])\<close> for an element \<open>x\<close> of the day's list.\<close>

definition event_time :: "yaml \<Rightarrow> py_error + pytime" where
  "event_time x =
     (case x of
        YDict kvs \<Rightarrow>
          (case dict_get kvs ''time'' of
             None \<Rightarrow> Inl KeyError
           | Some t \<Rightarrow> parse_time t)
      | _ \<Rightarrow> Inl TypeError)"

text \<open>
  \<open>sorted(events, key=...)\<close> first computes the key of every element in order (the first
  failure is raised), then sorts stably by key.
\<close>

fun sort_keys :: "yaml list \<Rightarrow> py_error + (pytime \<times> yaml) list" where
  "sort_keys [] = Inr []"
| "sort_keys (x # xs) =
     (case event_time x of
        Inl e \<Rightarrow> Inl e
      | Inr k \<Rightarrow> (case sort_keys xs of Inl e \<Rightarrow> Inl e | Inr ks \<Rightarrow> Inr ((k, x) # ks)))"

definition sorted_events :: "yaml list \<Rightarrow> py_error + yaml list" where
  "sorted_events events =
     (case sort_keys events of
        Inl e \<Rightarrow> Inl e
      | Inr ks \<Rightarrow> Inr (map snd (sort_key fst ks)))"

text \<open>The \<open>for event in events\<close> loop with its \<open>break\<close>; \<open>cur\<close> is \<open>current_event\<close>.\<close>

fun select_event :: "pytime \<Rightarrow> yaml list \<Rightarrow> yaml option \<Rightarrow> py_error + yaml option" where
  "select_event now_time [] cur = Inr cur"
| "select_event now_time (event # rest) cur =
     (case event_time event of
        Inl e \<Rightarrow> Inl e
      | Inr t \<Rightarrow> if t \<le> now_time then select_event now_time rest (Some event) else Inr cur)"

text \<open>
  The value of \<open>self._schedule[day_name]\<close> is a list whenever the schedule came from
  \<open>_parse_schedule\<close>, its only source; \<open>sorted\<close> of a value that is not iterable raises
  \<open>TypeError\<close>.
\<close>

definition get_current_setpoint ::
  "schedule_obj \<Rightarrow> pydatetime \<Rightarrow> (py_error + yaml option) \<times> schedule_obj" where
  "get_current_setpoint self now =
     (case schedule self of
        None \<Rightarrow> (Inr None, self)
      | Some sch \<Rightarrow>
          if sch = [] then (Inr None, self)
          else if override_active self \<and> override_until self \<noteq> None
                  \<and> dt_less now (the (override_until self))
          then (Inr None, self)
          else
            let self' = self\<lparr>override_active := False, override_until := None\<rparr> in
            (case dict_get sch (day_name now) of
               None \<Rightarrow> (Inr None, self')
             | Some (YList day_events) \<Rightarrow>
                 (case sorted_events day_events of
                    Inl e \<Rightarrow> (Inl e, self')
                  | Inr events \<Rightarrow> (select_event (time_part now) events None, self'))
             | Some _ \<Rightarrow> (Inl TypeError, self')))"

section \<open>store.py: class Store\<close>

text \<open>
  The runtime ledger: a dict from the day key to the two totals. The key is
  \<open>now.date().isoformat()\<close>, an injective rendering of the date, so the ledger is keyed
  by the date's ordinal. The dict is an association list in insertion order.
\<close>

record runtime_entry =
  heating_hours :: rat
  cooling_hours :: rat

type_synonym ledger = "(nat \<times> runtime_entry) list"

text \<open>
  The storage file is absent (\<open>None\<close>) or has a content of type \<open>'c\<close>. \<open>json.dump\<close> and
  \<open>json.load\<close> are library calls and are parameters: \<open>json_load\<close> returns \<open>None\<close> for
  \<open>JSONDecodeError\<close>. The outcome of writing is the environment's: the write goes through,
  or \<open>open\<close>/\<open>json.dump\<close> raises \<open>IOError\<close> and leaves some content behind.
\<close>

record store_obj =
  store_data :: ledger

datatype 'c write_outcome = Written | WriteFailed "'c option"

definition async_load ::
  "('c \<Rightarrow> ledger option) \<Rightarrow> store_obj \<Rightarrow> 'c option \<Rightarrow> ledger \<times> store_obj" where
  "async_load json_load self disk =
     (case disk of
        None \<Rightarrow> ([], self\<lparr>store_data := []\<rparr>)
      | Some content \<Rightarrow>
          (case json_load content of
             None \<Rightarrow> ([], self\<lparr>store_data := []\<rparr>)
           | Some d \<Rightarrow> (d, self\<lparr>store_data := d\<rparr>)))"

definition async_save ::
  "(ledger \<Rightarrow> 'c) \<Rightarrow> 'c write_outcome \<Rightarrow> ledger \<Rightarrow> store_obj \<Rightarrow> 'c option
     \<Rightarrow> store_obj \<times> 'c option" where
  "async_save json_dump outcome d self disk =
     (let self' = self\<lparr>store_data := d\<rparr> in
      case outcome of
        Written \<Rightarrow> (self', Some (json_dump d))
      | WriteFailed leftover \<Rightarrow> (self', leftover))"

section \<open>climate.py: class EnhancedThermostat\<close>

subsection \<open>Constants\<close>

text \<open>
  Home Assistant's \<open>HVACMode\<close> and \<open>HVACAction\<close> are string enums: a member equals its
  string value, and \<open>HVACMode(x)\<close> raises \<open>ValueError\<close> for any other string.
\<close>

definition HVACMode_OFF :: string where "HVACMode_OFF = ''off''"
definition HVACMode_HEAT :: string where "HVACMode_HEAT = ''heat''"
definition HVACMode_COOL :: string where "HVACMode_COOL = ''cool''"

definition HVACMode_values :: "string list" where
  "HVACMode_values = [''off'', ''heat'', ''cool'', ''heat_cool'', ''auto'', ''dry'', ''fan_only'']"

definition HVACAction_OFF :: string where "HVACAction_OFF = ''off''"
definition HVACAction_HEATING :: string where "HVACAction_HEATING = ''heating''"
definition HVACAction_COOLING :: string where "HVACAction_COOLING = ''cooling''"

definition HYSTERESIS_BUFFER :: rat where "HYSTERESIS_BUFFER = 1"

subsection \<open>Names bound in the module\<close>

text \<open>
  The names climate.py binds at module level, by its imports, its assignments and its
  definitions. From the \<open>datetime\<close> module it imports \<open>timedelta\<close> only. A function body
  that reads a name outside this list (and outside the builtins) raises \<open>NameError\<close>.
\<close>

definition climate_globals :: "string list" where
  "climate_globals =
     [''annotations'', ''logging'', ''ClimateEntity'', ''ClimateEntityFeature'', ''HVACAction'',
      ''HVACMode'', ''ConfigEntry'', ''ATTR_TEMPERATURE'', ''Platform'', ''HomeAssistant'',
      ''callback'', ''AddEntitiesCallback'', ''timedelta'', ''async_track_state_change_event'',
      ''async_track_time_interval'', ''DOMAIN'', ''Schedule'', ''Store'', ''_LOGGER'',
      ''HYSTERESIS_BUFFER'', ''async_setup_entry'', ''EnhancedThermostat'']"

definition global_name :: "string \<Rightarrow> 'a \<Rightarrow> py_error + 'a" where
  "global_name name v = (if name \<in> set climate_globals then Inr v else Inl NameError)"

text \<open>\<open>datetime.now()\<close> inside climate.py; \<open>clock\<close> is what the wall clock reads.\<close>

definition datetime_now :: "pydatetime \<Rightarrow> py_error + pydatetime" where
  "datetime_now clock = global_name ''datetime'' clock"

text \<open>\<open>now + timedelta(days=1)\<close>; the last date is 9999-12-31, ordinal 3652059.\<close>

definition add_one_day :: "pydatetime \<Rightarrow> py_error + pydatetime" where
  "add_one_day now =
     (if date_ordinal now + 1 > 3652059 then Inl OverflowError
      else Inr (now\<lparr>date_ordinal := date_ordinal now + 1\<rparr>))"

text \<open>\<open>(now - prev).total_seconds() / 3600\<close>, a timedelta's seconds as a rational.\<close>

definition seconds_of_day :: "pytime \<Rightarrow> rat" where
  "seconds_of_day t =
     (case t of (h, m, s, us) \<Rightarrow> of_nat (h * 3600 + m * 60 + s) + of_nat us / 1000000)"

definition hours_between :: "pydatetime \<Rightarrow> pydatetime \<Rightarrow> rat" where
  "hours_between prev now =
     ((of_nat (date_ordinal now) - of_nat (date_ordinal prev)) * 86400
        + seconds_of_day (time_part now) - seconds_of_day (time_part prev)) / 3600"

subsection \<open>The object and the service calls it makes\<close>

text \<open>The underlying entity's state object: its state string and the attributes read.\<close>

record ha_state =
  state :: string
  attr_current_temperature :: "rat option"
  attr_temperature :: "rat option"
  attr_hvac_action :: "string option"

text \<open>
  The service calls that reach Home Assistant, oldest first. The notification messages
  are format strings; a message is kept as its kind and the numbers it shows.
\<close>

datatype notification =
    ManualOverride
  | HeatingOff rat
  | CoolingOff rat
  | HeatingActivated rat rat
  | CoolingActivated rat rat

datatype service_call =
    SetTemperature string yaml
  | SetHvacMode string string
  | CreateNotification notification

record thermostat =
  thermostat_entity_id :: string
  underlying_thermostat_state :: "ha_state option"
  safety_min_temp :: "rat option"
  safety_max_temp :: "rat option"
  safety_active :: bool
  safety_triggered_mode :: "string option"
  sched :: schedule_obj
  store :: "store_obj option"
  runtime_data :: ledger
  last_hvac_action :: "string option"
  last_action_timestamp :: "pydatetime option"
  service_calls :: "service_call list"

definition current_temperature :: "thermostat \<Rightarrow> rat option" where
  "current_temperature self =
     (case underlying_thermostat_state self of
        Some st \<Rightarrow> attr_current_temperature st
      | None \<Rightarrow> None)"

definition target_temperature :: "thermostat \<Rightarrow> rat option" where
  "target_temperature self =
     (case underlying_thermostat_state self of
        Some st \<Rightarrow> attr_temperature st
      | None \<Rightarrow> None)"

definition hvac_mode :: "thermostat \<Rightarrow> string option" where
  "hvac_mode self =
     (case underlying_thermostat_state self of
        Some st \<Rightarrow> Some (state st)
      | None \<Rightarrow> Some HVACMode_OFF)"

definition hvac_action :: "thermostat \<Rightarrow> string option" where
  "hvac_action self =
     (case underlying_thermostat_state self of
        Some st \<Rightarrow> attr_hvac_action st
      | None \<Rightarrow> Some HVACAction_OFF)"

subsection \<open>Coroutines\<close>

text \<open>
  A method declared \<open>async def\<close> returns a coroutine object when it is called; its body
  runs only when the coroutine is awaited. A coroutine is the suspended body: a function of
  the clock and the object at the time it runs. \<open>await\<close> runs it; a call whose coroutine
  is dropped (a bare call statement in a method that is not \<open>async\<close>) runs none of it.
\<close>

type_synonym 'a coroutine = "pydatetime \<Rightarrow> thermostat \<Rightarrow> (py_error + 'a) \<times> thermostat"

definition await :: "'a coroutine \<Rightarrow> pydatetime \<Rightarrow> thermostat \<Rightarrow> (py_error + 'a) \<times> thermostat" where
  "await c clock self = c clock self"

definition dropped :: "'c \<Rightarrow> 's \<Rightarrow> 's" where
  "dropped c self = self"

text \<open>
  \<open>hass.services.async_call\<close> is such a coroutine function (the two public operations
  await it): the service call is made when its coroutine runs.
\<close>

definition services_async_call :: "service_call \<Rightarrow> unit coroutine" where
  "services_async_call call clock self =
     (Inr (), self\<lparr>service_calls := service_calls self @ [call]\<rparr>)"

subsection \<open>\<open>_get_next_schedule_time\<close>, \<open>async_set_temperature\<close>, \<open>async_set_hvac_mode\<close>\<close>

definition get_next_schedule_time :: "pydatetime \<Rightarrow> py_error + pydatetime" where
  "get_next_schedule_time clock =
     (case datetime_now clock of
        Inl e \<Rightarrow> Inl e
      | Inr now \<Rightarrow> add_one_day now)"

definition async_set_temperature :: "yaml \<Rightarrow> unit coroutine" where
  "async_set_temperature temperature clock self =
     (case get_next_schedule_time clock of
        Inl e \<Rightarrow> (Inl e, self)
      | Inr until \<Rightarrow>
          let self1 = self\<lparr>sched := set_override (sched self) until\<rparr> in
          await (services_async_call (SetTemperature (thermostat_entity_id self1) temperature))
            clock self1)"

definition async_set_hvac_mode :: "string \<Rightarrow> unit coroutine" where
  "async_set_hvac_mode mode clock self =
     (case get_next_schedule_time clock of
        Inl e \<Rightarrow> (Inl e, self)
      | Inr until \<Rightarrow>
          let self1 = self\<lparr>sched := set_override (sched self) until\<rparr> in
          await (services_async_call (SetHvacMode (thermostat_entity_id self1) mode))
            clock self1)"

subsection \<open>\<open>_create_notification\<close>\<close>

text \<open>
  The method is not \<open>async\<close> and calls \<open>hass.services.async_call\<close> in a bare call
  statement: the coroutine is dropped.
\<close>

definition create_notification :: "thermostat \<Rightarrow> notification \<Rightarrow> thermostat" where
  "create_notification self message =
     dropped (services_async_call (CreateNotification message)) self"

subsection \<open>\<open>_async_check_safety_temp\<close>\<close>

text \<open>
  The method is not \<open>async\<close>: its calls of \<open>async_set_hvac_mode\<close> and
  \<open>async_set_temperature\<close> are bare call statements, so their coroutines are dropped.
  \<open>self._safety_min_temp + HYSTERESIS_BUFFER\<close> raises \<open>TypeError\<close> when the bound is \<open>None\<close>.
\<close>

definition release_safety :: "thermostat \<Rightarrow> notification \<Rightarrow> thermostat" where
  "release_safety self message =
     (let self1 = dropped (async_set_hvac_mode HVACMode_OFF) self;
          self2 = self1\<lparr>safety_active := False, safety_triggered_mode := None\<rparr>
      in create_notification self2 message)"

definition activate_safety ::
  "thermostat \<Rightarrow> string \<Rightarrow> rat \<Rightarrow> notification \<Rightarrow> thermostat" where
  "activate_safety self mode bound message =
     (let self1 = self\<lparr>safety_active := True, safety_triggered_mode := Some mode\<rparr>;
          self2 = dropped (async_set_hvac_mode mode) self1;
          self3 = dropped (async_set_temperature (YFloat bound)) self2
      in create_notification self3 message)"

definition async_check_safety_temp :: "thermostat \<Rightarrow> (py_error + unit) \<times> thermostat" where
  "async_check_safety_temp self =
     (case (hvac_mode self, current_temperature self) of
        (Some mode, Some temp) \<Rightarrow>
          if safety_active self then
            if Some mode \<noteq> safety_triggered_mode self then
              (Inr (), create_notification
                 (self\<lparr>safety_active := False, safety_triggered_mode := None\<rparr>) ManualOverride)
            else if safety_triggered_mode self = Some HVACMode_HEAT then
              (case safety_min_temp self of
                 None \<Rightarrow> (Inl TypeError, self)
               | Some min_temp \<Rightarrow>
                   if temp \<ge> min_temp + HYSTERESIS_BUFFER
                   then (Inr (), release_safety self (HeatingOff temp))
                   else (Inr (), self))
            else if safety_triggered_mode self = Some HVACMode_COOL then
              (case safety_max_temp self of
                 None \<Rightarrow> (Inl TypeError, self)
               | Some max_temp \<Rightarrow>
                   if temp \<le> max_temp - HYSTERESIS_BUFFER
                   then (Inr (), release_safety self (CoolingOff temp))
                   else (Inr (), self))
            else (Inr (), self)
          else if mode = HVACMode_OFF then
            (case safety_min_temp self of
               Some min_temp \<Rightarrow>
                 if temp < min_temp
                 then (Inr (), activate_safety self HVACMode_HEAT min_temp
                                 (HeatingActivated temp min_temp))
                 else (case safety_max_temp self of
                         Some max_temp \<Rightarrow>
                           if temp > max_temp
                           then (Inr (), activate_safety self HVACMode_COOL max_temp
                                           (CoolingActivated temp max_temp))
                           else (Inr (), self)
                       | None \<Rightarrow> (Inr (), self))
             | None \<Rightarrow>
                 (case safety_max_temp self of
                    Some max_temp \<Rightarrow>
                      if temp > max_temp
                      then (Inr (), activate_safety self HVACMode_COOL max_temp
                                      (CoolingActivated temp max_temp))
                      else (Inr (), self)
                  | None \<Rightarrow> (Inr (), self)))
          else (Inr (), self)
      | _ \<Rightarrow> (Inr (), self))"

subsection \<open>\<open>_async_apply_schedule\<close>\<close>

text \<open>\<open>str.lower\<close> on ASCII letters.\<close>

definition lower_char :: "char \<Rightarrow> char" where
  "lower_char c =
     (if c \<in> set ''ABCDEFGHIJKLMNOPQRSTUVWXYZ'' then char_of (of_char c + (32::nat)) else c)"

definition lower :: "string \<Rightarrow> string" where
  "lower s = map lower_char s"

text \<open>\<open>setpoint.get(key)\<close>: the value, or \<open>None\<close> when the key is absent.\<close>

definition get_or_none :: "(yaml \<times> yaml) list \<Rightarrow> string \<Rightarrow> yaml" where
  "get_or_none kvs key = (case dict_get kvs key of None \<Rightarrow> YNone | Some v \<Rightarrow> v)"

text \<open>\<open>hvac_mode != self.hvac_mode\<close> and \<open>target_temp != self.target_temperature\<close>.\<close>

definition differs_from_mode :: "yaml \<Rightarrow> string option \<Rightarrow> bool" where
  "differs_from_mode v cur = (case v of YStr m \<Rightarrow> cur \<noteq> Some m | YNone \<Rightarrow> cur \<noteq> None | _ \<Rightarrow> True)"

definition differs_from_temp :: "yaml \<Rightarrow> rat option \<Rightarrow> bool" where
  "differs_from_temp v cur =
     (case v of
        YInt i \<Rightarrow> cur \<noteq> Some (of_int i)
      | YFloat q \<Rightarrow> cur \<noteq> Some q
      | YBool b \<Rightarrow> cur \<noteq> Some (if b then 1 else 0)
      | YNone \<Rightarrow> cur \<noteq> None
      | _ \<Rightarrow> True)"

text \<open>
  \<open>await self.async_set_hvac_mode(HVACMode(hvac_mode.lower()))\<close>: the argument is
  evaluated first (\<open>AttributeError\<close> for a value with no \<open>lower\<close>, \<open>ValueError\<close> for a string
  that is no mode), then the coroutine runs.
\<close>

definition apply_mode :: "yaml \<Rightarrow> unit coroutine" where
  "apply_mode v clock self =
     (case v of
        YStr m \<Rightarrow>
          if lower m \<in> set HVACMode_values
          then await (async_set_hvac_mode (lower m)) clock self
          else (Inl ValueError, self)
      | _ \<Rightarrow> (Inl AttributeError, self))"

definition async_apply_schedule :: "pydatetime \<Rightarrow> unit coroutine" where
  "async_apply_schedule now clock self =
     (case get_current_setpoint (sched self) now of
        (r, sched') \<Rightarrow>
          let self1 = self\<lparr>sched := sched'\<rparr> in
          (case r of
             Inl e \<Rightarrow> (Inl e, self1)
           | Inr None \<Rightarrow> (Inr (), self1)
           | Inr (Some setpoint) \<Rightarrow>
               if \<not> truthy setpoint then (Inr (), self1)
               else
                 (case setpoint of
                    YDict kvs \<Rightarrow>
                      let target_temp = get_or_none kvs ''temperature'';
                          mode = get_or_none kvs ''hvac_mode''
                      in
                      (case (if truthy mode \<and> differs_from_mode mode (hvac_mode self1)
                             then apply_mode mode clock self1
                             else (Inr (), self1)) of
                         (Inl e, self2) \<Rightarrow> (Inl e, self2)
                       | (Inr u, self2) \<Rightarrow>
                           if truthy target_temp
                              \<and> differs_from_temp target_temp (target_temperature self2)
                           then await (async_set_temperature target_temp) clock self2
                           else (Inr (), self2))
                  | _ \<Rightarrow> (Inl AttributeError, self1))))"

subsection \<open>\<open>_async_update_runtime\<close>\<close>

text \<open>
  The method is not \<open>async\<close>: \<open>self._store.async_save(...)\<close> is a bare call statement, so
  its coroutine (the store and the data it would save) is dropped; reading the attribute
  of a store that is still \<open>None\<close> raises \<open>AttributeError\<close>. The entry for today exists
  when the totals are added to.
\<close>

definition add_heating :: "ledger \<Rightarrow> nat \<Rightarrow> rat \<Rightarrow> ledger" where
  "add_heating d today duration =
     (case map_of d today of
        None \<Rightarrow> d
      | Some e \<Rightarrow> AList.update today (e\<lparr>heating_hours := heating_hours e + duration\<rparr>) d)"

definition add_cooling :: "ledger \<Rightarrow> nat \<Rightarrow> rat \<Rightarrow> ledger" where
  "add_cooling d today duration =
     (case map_of d today of
        None \<Rightarrow> d
      | Some e \<Rightarrow> AList.update today (e\<lparr>cooling_hours := cooling_hours e + duration\<rparr>) d)"

definition accrue :: "thermostat \<Rightarrow> pydatetime \<Rightarrow> pydatetime \<Rightarrow> (py_error + unit) \<times> thermostat" where
  "accrue self prev now =
     (let today = date_ordinal now;
          duration = hours_between prev now;
          d0 = runtime_data self;
          d1 = (if map_of d0 today = None
                then AList.update today \<lparr>heating_hours = 0, cooling_hours = 0\<rparr> d0 else d0);
          d2 = (if last_hvac_action self = Some HVACAction_HEATING then add_heating d1 today duration
                else if last_hvac_action self = Some HVACAction_COOLING then add_cooling d1 today duration
                else d1);
          self1 = self\<lparr>runtime_data := d2\<rparr>
      in case store self1 of
           None \<Rightarrow> (Inl AttributeError, self1)
         | Some st \<Rightarrow> (Inr (), dropped (st, d2) self1))"

definition async_update_runtime ::
  "ha_state \<Rightarrow> pydatetime \<Rightarrow> thermostat \<Rightarrow> (py_error + unit) \<times> thermostat" where
  "async_update_runtime new_state clock self =
     (case datetime_now clock of
        Inl e \<Rightarrow> (Inl e, self)
      | Inr now \<Rightarrow>
          let current_hvac_action = attr_hvac_action new_state in
          (case (if last_hvac_action self \<noteq> None \<and> last_hvac_action self \<noteq> Some []
                    \<and> last_action_timestamp self \<noteq> None
                    \<and> current_hvac_action \<noteq> last_hvac_action self
                 then accrue self (the (last_action_timestamp self)) now
                 else (Inr (), self)) of
             (Inl e, self1) \<Rightarrow> (Inl e, self1)
           | (Inr u, self1) \<Rightarrow>
               (Inr (), self1\<lparr>last_hvac_action := current_hvac_action,
                               last_action_timestamp := Some now\<rparr>)))"

section \<open>What the specification says, in its own words\<close>

subsection \<open>Loading a schedule definition\<close>

text \<open>
  The structural violations the specification lists for a schedule definition, each
  stated on the value the YAML text denotes: the top level is not a mapping, a weekday's
  value is not a sequence, an event is not a mapping, an event has no time field, an
  event's time field does not parse as HH:MM.
\<close>

definition mapping_items :: "yaml \<Rightarrow> (yaml \<times> yaml) list" where
  "mapping_items v = (case v of YDict items \<Rightarrow> items | _ \<Rightarrow> [])"

definition is_mapping :: "yaml \<Rightarrow> bool" where
  "is_mapping v = (case v of YDict items \<Rightarrow> True | _ \<Rightarrow> False)"

definition is_sequence :: "yaml \<Rightarrow> bool" where
  "is_sequence v = (case v of YList xs \<Rightarrow> True | _ \<Rightarrow> False)"

definition all_events :: "(yaml \<times> yaml) list \<Rightarrow> yaml list" where
  "all_events items = concat (map (\<lambda>kv. case snd kv of YList evs \<Rightarrow> evs | _ \<Rightarrow> []) items)"

definition time_field :: "yaml \<Rightarrow> yaml option" where
  "time_field e = (case e of YDict kvs \<Rightarrow> dict_get kvs ''time'' | _ \<Rightarrow> None)"

definition day_not_sequence :: "yaml \<Rightarrow> bool" where
  "day_not_sequence v = list_ex (\<lambda>kv. \<not> is_sequence (snd kv)) (mapping_items v)"

definition event_not_mapping :: "yaml \<Rightarrow> bool" where
  "event_not_mapping v = list_ex (\<lambda>e. \<not> is_mapping e) (all_events (mapping_items v))"

definition time_missing :: "yaml \<Rightarrow> bool" where
  "time_missing v = list_ex (\<lambda>e. is_mapping e \<and> time_field e = None) (all_events (mapping_items v))"

definition time_unparseable :: "yaml \<Rightarrow> bool" where
  "time_unparseable v =
     list_ex (\<lambda>e. case time_field e of None \<Rightarrow> False | Some t \<Rightarrow> isl (parse_time t))
       (all_events (mapping_items v))"

text \<open>
  The violations \<open>_parse_schedule\<close> looks for.
\<close>

definition checked_violation :: "yaml \<Rightarrow> bool" where
  "checked_violation v =
     (if is_mapping v then day_not_sequence v \<or> event_not_mapping v \<or> time_missing v else True)"

subsection \<open>Evaluating a schedule\<close>

text \<open>
  The time of day of an event whose time field parses, and the specification's choice
  among a day's events: the result is an event of the day that is not after \<open>t\<close> and
  that no event not after \<open>t\<close> comes later than; it is \<open>None\<close> when every event is
  after \<open>t\<close>. The override window lets evaluation through when it is unset, inactive
  or expired.
\<close>

definition event_key :: "yaml \<Rightarrow> pytime" where
  "event_key x = projr (event_time x)"

definition times_parse :: "yaml list \<Rightarrow> bool" where
  "times_parse evs = list_all (\<lambda>x. \<not> isl (event_time x)) evs"

definition latest_not_after :: "yaml list \<Rightarrow> pytime \<Rightarrow> yaml option \<Rightarrow> bool" where
  "latest_not_after evs t r =
     (case r of
        None \<Rightarrow> list_all (\<lambda>e. t < event_key e) evs
      | Some e \<Rightarrow> e \<in> set evs \<and> event_key e \<le> t
                  \<and> list_all (\<lambda>e'. t < event_key e' \<or> event_key e' \<le> event_key e) evs)"

definition unsuppressed :: "schedule_obj \<Rightarrow> pydatetime \<Rightarrow> bool" where
  "unsuppressed self now =
     (case override_until self of
        None \<Rightarrow> True
      | Some until \<Rightarrow> \<not> (override_active self \<and> dt_less now until))"

section \<open>Concrete inputs\<close>

text \<open>
  A loader that returns a fixed value stands for \<open>yaml.safe_load\<close> on a text that
  denotes it. The scenario schedule is the specification's; 738886 is the ordinal of
  2024-01-01, a Monday.
\<close>

definition constant_loader :: "yaml \<Rightarrow> string \<Rightarrow> yaml_result" where
  "constant_loader v text = Loaded v"

definition event_0600 :: yaml where
  "event_0600 = YDict [(YStr ''time'', YStr ''06:00''), (YStr ''temperature'', YInt 20)]"

definition event_2200 :: yaml where
  "event_2200 = YDict [(YStr ''time'', YStr ''22:00''), (YStr ''temperature'', YInt 17)]"

definition scenario_schedule :: "(yaml \<times> yaml) list" where
  "scenario_schedule = [(YStr ''monday'', YList [event_0600, event_2200])]"

definition bad_time_event :: yaml where
  "bad_time_event = YDict [(YStr ''time'', YStr ''abc''), (YStr ''temperature'', YInt 20)]"

definition bad_time_schedule :: "(yaml \<times> yaml) list" where
  "bad_time_schedule = [(YStr ''monday'', YList [bad_time_event])]"

definition event_heat_0600 :: yaml where
  "event_heat_0600 =
     YDict [(YStr ''time'', YStr ''06:00''), (YStr ''temperature'', YInt 20),
            (YStr ''hvac_mode'', YStr ''heat'')]"

definition monday_at :: "nat \<Rightarrow> nat \<Rightarrow> pydatetime" where
  "monday_at h m = \<lparr>date_ordinal = 738886, time_part = (h, m, 0, 0)\<rparr>"

definition scenario_obj :: schedule_obj where
  "scenario_obj = \<lparr>schedule = Some scenario_schedule, override_active = False, override_until = None\<rparr>"

definition overridden_obj :: schedule_obj where
  "overridden_obj =
     \<lparr>schedule = Some bad_time_schedule, override_active = True,
      override_until = Some (monday_at 23 0)\<rparr>"

definition expired_obj :: schedule_obj where
  "expired_obj =
     \<lparr>schedule = Some scenario_schedule, override_active = True,
      override_until = Some (monday_at 7 0)\<rparr>"

definition device :: "string \<Rightarrow> rat option \<Rightarrow> rat option \<Rightarrow> string option \<Rightarrow> ha_state" where
  "device mode temp target action =
     \<lparr>state = mode, attr_current_temperature = temp, attr_temperature = target,
      attr_hvac_action = action\<rparr>"

definition example_thermostat ::
  "rat option \<Rightarrow> rat option \<Rightarrow> (yaml \<times> yaml) list option \<Rightarrow> ha_state \<Rightarrow> thermostat" where
  "example_thermostat min_temp max_temp sch dev =
     \<lparr>thermostat_entity_id = ''climate.zwave'',
      underlying_thermostat_state = Some dev,
      safety_min_temp = min_temp, safety_max_temp = max_temp,
      safety_active = False, safety_triggered_mode = None,
      sched = \<lparr>schedule = sch, override_active = False, override_until = None\<rparr>,
      store = Some \<lparr>store_data = []\<rparr>,
      runtime_data = [], last_hvac_action = None, last_action_timestamp = None,
      service_calls = []\<rparr>"

definition cold_room :: thermostat where
  "cold_room = example_thermostat (Some 15) None None (device ''off'' (Some 14) None None)"

definition heating_recovered :: thermostat where
  "heating_recovered =
     (example_thermostat (Some 15) None None (device ''heat'' (Some (161 / 10)) None None))
       \<lparr>safety_active := True, safety_triggered_mode := Some HVACMode_HEAT\<rparr>"

definition heating_switched_off :: thermostat where
  "heating_switched_off =
     (example_thermostat (Some 15) None None (device ''off'' (Some 14) None None))
       \<lparr>safety_active := True, safety_triggered_mode := Some HVACMode_HEAT\<rparr>"

definition heating_unavailable :: thermostat where
  "heating_unavailable =
     (example_thermostat (Some 15) None None (device ''unavailable'' None None None))
       \<lparr>safety_active := True, safety_triggered_mode := Some HVACMode_HEAT\<rparr>"

definition scheduled_off :: thermostat where
  "scheduled_off =
     example_thermostat None None (Some [(YStr ''monday'', YList [event_heat_0600])])
       (device ''off'' (Some 18) (Some 18) None)"

definition was_heating :: thermostat where
  "was_heating =
     (example_thermostat None None None (device ''heat'' (Some 18) (Some 20) (Some ''heating'')))
       \<lparr>last_hvac_action := Some HVACAction_HEATING,
        last_action_timestamp := Some (monday_at 8 0)\<rparr>"

definition cold_room_scheduled :: thermostat where
  "cold_room_scheduled =
     example_thermostat (Some 15) None (Some scenario_schedule) (device ''off'' (Some 14) None None)"

definition example_ledger :: ledger where
  "example_ledger = [(738886, \<lparr>heating_hours = 3 / 2, cooling_hours = 0\<rparr>)]"

definition stale_ledger :: ledger where
  "stale_ledger = [(738885, \<lparr>heating_hours = 4, cooling_hours = 1\<rparr>)]"

section \<open>Properties of schedule.py\<close>

lemmas eval_time = event_time_def parse_time_def strptime_HM_def parse_minute_def is_digit_def
  digit_val_def dict_get_def

lemmas eval_schedule = get_current_setpoint_def day_name_def weekday_def sorted_events_def
  monday_at_def dt_less_def

subsection \<open>Loading\<close>

lemma event_ok_conv: "event_ok e = (is_mapping e \<and> time_field e \<noteq> None)"
  by (cases e) (simp_all add: event_ok_def is_mapping_def time_field_def)

lemma check_days_conv:
  "check_days items =
     (list_all (\<lambda>kv. is_sequence (snd kv)) items \<and> list_all event_ok (all_events items))"
proof (induction items rule: check_days.induct)
  case 1
  show ?case by (simp add: all_events_def)
next
  case (2 day events rest)
  show ?case
  proof (cases events)
    case (YList evs)
    with 2 show ?thesis by (auto simp: all_events_def is_sequence_def)
  qed (simp_all add: is_sequence_def)
qed

lemma check_days_violation:
  "check_days items = (\<not> checked_violation (YDict items))"
  by (auto simp: check_days_conv checked_violation_def day_not_sequence_def event_not_mapping_def
      time_missing_def mapping_items_def is_mapping_def list_all_iff list_ex_iff event_ok_conv)

lemma check_days_lookup:
  "check_days items \<Longrightarrow> map_of items k = Some v \<Longrightarrow> \<exists>evs. v = YList evs"
proof (induction items rule: check_days.induct)
  case 1
  then show ?case by simp
next
  case (2 day events rest)
  then show ?case by (cases events) (auto split: if_splits)
qed

lemma parse_schedule_checked:
  "parse_schedule safe_load text = Some sch \<Longrightarrow> check_days sch"
  by (auto simp: parse_schedule_def split: option.splits if_splits yaml_result.splits yaml.splits)

text \<open>
  Claim C4, as amended. Loading a schedule definition text is all or nothing: the result
  is no schedule when the text is empty, when it is not valid YAML, when its top level is
  not a mapping, when a weekday's value is not a sequence, when an event is not a
  mapping or when an event has no time field; otherwise it is the whole definition, with
  no event dropped. Whether a time field parses as HH:MM plays no part in loading.
\<close>

theorem load_is_all_or_nothing:
  "parse_schedule safe_load (Some text) =
     (if text = [] then None
      else case safe_load text of
             YAMLError \<Rightarrow> None
           | Loaded v \<Rightarrow> if checked_violation v then None else Some (mapping_items v))"
proof (cases "text = []")
  case True
  then show ?thesis by (simp add: parse_schedule_def)
next
  case False
  show ?thesis
  proof (cases "safe_load text")
    case YAMLError
    with False show ?thesis by (simp add: parse_schedule_def)
  next
    case (Loaded v)
    show ?thesis
    proof (cases v)
      case (YDict items)
      with False Loaded show ?thesis
        by (simp add: parse_schedule_def check_days_violation mapping_items_def)
    qed (use False Loaded in \<open>simp_all add: parse_schedule_def checked_violation_def is_mapping_def\<close>)
  qed
qed

text \<open>
  The theorem of claim C4 at the scenario schedule, which is installed whole, and at a
  definition with an event that has no time field, which is refused.
\<close>

theorem load_is_all_or_nothing_witness:
  "parse_schedule (constant_loader (YDict scenario_schedule)) (Some ''monday: ...'')
     = Some scenario_schedule
   \<and> parse_schedule (constant_loader (YDict [(YStr ''monday'', YList [YDict []])])) (Some ''monday: [{}]'')
     = None"
  using load_is_all_or_nothing [of "constant_loader (YDict scenario_schedule)" "''monday: ...''"]
    load_is_all_or_nothing [of "constant_loader (YDict [(YStr ''monday'', YList [YDict []])])" "''monday: [{}]''"]
  by (simp add: constant_loader_def checked_violation_def is_mapping_def day_not_sequence_def
      event_not_mapping_def time_missing_def mapping_items_def all_events_def is_sequence_def
      time_field_def dict_get_def scenario_schedule_def event_0600_def event_2200_def)

text \<open>
  Claim C4 as stated fails: a definition whose only event has the time field "abc",
  which does not parse as HH:MM, is installed.
\<close>

theorem unparseable_time_is_installed:
  "time_unparseable (YDict bad_time_schedule)
   \<and> parse_schedule (constant_loader (YDict bad_time_schedule)) (Some ''monday: [{time: abc, temperature: 20}]'')
       = Some bad_time_schedule"
  by (simp add: time_unparseable_def mapping_items_def all_events_def time_field_def
      bad_time_schedule_def bad_time_event_def parse_schedule_def constant_loader_def
      event_ok_def eval_time)

subsection \<open>Evaluation under an override\<close>

text \<open>
  Claim C5. Whatever the schedule content (absent, empty, or with events that could
  not be read), when the override is active and \<open>now\<close> is strictly before its expiry,
  evaluation returns \<open>None\<close> and changes nothing; the result does not depend on the
  schedule, so no event is inspected.
\<close>

theorem override_suppresses_evaluation:
  assumes "override_active self" and "override_until self = Some until" and "dt_less now until"
  shows "get_current_setpoint self now = (Inr None, self)"
  using assms by (simp add: get_current_setpoint_def split: option.splits)

text \<open>
  The theorem of claim C5 at a schedule whose event has an unreadable time field:
  evaluation under the override returns \<open>None\<close> and does not raise.
\<close>

theorem override_suppresses_evaluation_witness:
  "override_active overridden_obj \<and> override_until overridden_obj = Some (monday_at 23 0)
   \<and> dt_less (monday_at 8 0) (monday_at 23 0)
   \<and> get_current_setpoint overridden_obj (monday_at 8 0) = (Inr None, overridden_obj)"
  using override_suppresses_evaluation [of overridden_obj "monday_at 23 0" "monday_at 8 0"]
  by (simp add: overridden_obj_def monday_at_def dt_less_def)

subsection \<open>Evaluation without an override\<close>

lemma sort_keys_parse:
  "times_parse evs \<Longrightarrow> sort_keys evs = Inr (map (\<lambda>x. (event_key x, x)) evs)"
proof (induction evs)
  case Nil
  then show ?case by simp
next
  case (Cons x xs)
  then obtain k where "event_time x = Inr k"
    by (cases "event_time x") (auto simp: times_parse_def)
  with Cons show ?case
    by (simp add: times_parse_def event_key_def)
qed

lemma insort_key_pairs_id:
  "insort_key fst (f x, x) (map (\<lambda>y. (f y, y)) ys) = map (\<lambda>y. (f y, y)) (insort_key f x ys)"
  by (induction ys) auto

lemma sort_key_pairs:
  "sort_key fst (map (\<lambda>y. (f y, y)) ys) = map (\<lambda>y. (f y, y)) (sort_key f ys)"
  by (induction ys) (auto simp: insort_key_pairs_id)

lemma sorted_events_parse:
  assumes "times_parse evs"
  shows "sorted_events evs = Inr (sort_key event_key evs)"
  using assms by (simp add: sorted_events_def sort_keys_parse sort_key_pairs comp_def)

lemma select_event_sorted:
  assumes "times_parse es" and "sorted (map event_key es)"
  shows "select_event t es cur =
           Inr (case filter (\<lambda>e. event_key e \<le> t) es of [] \<Rightarrow> cur | f # fs \<Rightarrow> Some (last (f # fs)))"
  using assms
proof (induction es arbitrary: cur)
  case Nil
  then show ?case by simp
next
  case (Cons e es)
  from Cons.prems obtain k where k: "event_time e = Inr k"
    by (cases "event_time e") (auto simp: times_parse_def)
  then have ek: "event_key e = k" by (simp add: event_key_def)
  have tp: "times_parse es" using Cons.prems by (simp add: times_parse_def)
  have so: "sorted (map event_key es)" using Cons.prems by simp
  show ?case
  proof (cases "k \<le> t")
    case True
    then show ?thesis
      using Cons.IH [OF tp so, of "Some e"] k ek
      by (simp split: list.splits)
  next
    case False
    have "filter (\<lambda>e. event_key e \<le> t) es = []"
    proof -
      have "\<forall>x\<in>set es. \<not> event_key x \<le> t"
        using Cons.prems(2) False ek by auto
      then show ?thesis by (simp add: filter_empty_conv)
    qed
    with False k ek show ?thesis by simp
  qed
qed

lemma sorted_last_greatest:
  assumes "sorted (map f zs)" and "x \<in> set zs"
  shows "f x \<le> f (last zs)"
  using assms
proof (induction zs)
  case Nil
  then show ?case by simp
next
  case (Cons z zs)
  show ?case
  proof (cases "zs = []")
    case True
    with Cons.prems show ?thesis by simp
  next
    case False
    then have l: "last zs \<in> set zs" by simp
    from Cons.prems(1) have all: "\<forall>y\<in>set zs. f z \<le> f y" and so: "sorted (map f zs)"
      by auto
    show ?thesis
    proof (cases "x = z")
      case True
      with all l False show ?thesis by simp
    next
      case neq: False
      with Cons.prems(2) have "x \<in> set zs" by simp
      with Cons.IH [OF so] False show ?thesis by simp
    qed
  qed
qed

lemma last_filter_sorted:
  assumes "sorted (map f xs)" and "filter P xs = y # ys" and "x \<in> set xs" and "P x"
  shows "f x \<le> f (last (y # ys))"
proof -
  have s: "sorted (map f (filter P xs))" using assms(1) by (simp add: sorted_filter)
  have "x \<in> set (filter P xs)" using assms(3,4) by simp
  with s show ?thesis unfolding assms(2) by (rule sorted_last_greatest)
qed

lemma select_event_latest:
  assumes "times_parse evs"
  shows "\<exists>r. select_event t (sort_key event_key evs) None = Inr r \<and> latest_not_after evs t r"
proof -
  let ?es = "sort_key event_key evs"
  have tp: "times_parse ?es" using assms by (simp add: times_parse_def list_all_iff)
  have so: "sorted (map event_key ?es)" by simp
  note sel = select_event_sorted [OF tp so, of t None]
  show ?thesis
  proof (cases "filter (\<lambda>e. event_key e \<le> t) ?es")
    case Nil
    then have "\<forall>e\<in>set evs. t < event_key e"
      by (auto simp: filter_empty_conv)
    with sel Nil show ?thesis
      by (simp add: latest_not_after_def list_all_iff)
  next
    case (Cons f fs)
    let ?l = "last (f # fs)"
    have "?l \<in> set (filter (\<lambda>e. event_key e \<le> t) ?es)"
      using Cons by (metis last_in_set list.distinct(1))
    then have lin: "?l \<in> set evs" and lle: "event_key ?l \<le> t" by auto
    have mx: "\<forall>e'\<in>set evs. t < event_key e' \<or> event_key e' \<le> event_key ?l"
    proof
      fix e' assume "e' \<in> set evs"
      then have "e' \<in> set ?es" by simp
      then show "t < event_key e' \<or> event_key e' \<le> event_key ?l"
        using last_filter_sorted [OF so Cons, of e'] by (cases "event_key e' \<le> t") auto
    qed
    from sel Cons lin lle mx show ?thesis
      by (simp add: latest_not_after_def list_all_iff)
  qed
qed

lemma scenario_0800:
  "fst (get_current_setpoint scenario_obj (monday_at 8 0)) = Inr (Some event_0600)"
  by (simp add: scenario_obj_def scenario_schedule_def event_0600_def event_2200_def
      eval_schedule eval_time)

lemma scenario_2300:
  "fst (get_current_setpoint scenario_obj (monday_at 23 0)) = Inr (Some event_2200)"
  by (simp add: scenario_obj_def scenario_schedule_def event_0600_def event_2200_def
      eval_schedule eval_time)

lemma scenario_0500:
  "fst (get_current_setpoint scenario_obj (monday_at 5 0)) = Inr None"
  by (simp add: scenario_obj_def scenario_schedule_def event_0600_def event_2200_def
      eval_schedule eval_time)

text \<open>
  Claim C6, as amended. For every loaded schedule that is not empty and every \<open>now\<close>
  with no active unexpired override, evaluation clears the override; it returns \<open>None\<close>
  when today's weekday key is absent; when the key is present its value is a list of
  events, and if the time fields of these events all parse as HH:MM, evaluation returns
  the event of that day with the greatest time of day not exceeding that of \<open>now\<close>, or
  \<open>None\<close> when \<open>now\<close> is before all of them. In the specification's scenario, Monday
  08:00 yields the 06:00 event (temperature 20), Monday 23:00 the 22:00 event
  (temperature 17) and Monday 05:00 yields \<open>None\<close>.
\<close>

theorem evaluate_selects_latest_event:
  assumes loaded: "parse_schedule safe_load text = Some sch"
    and nonempty: "sch \<noteq> []"
    and installed: "schedule self = Some sch"
    and free: "unsuppressed self now"
  shows "snd (get_current_setpoint self now)
           = self\<lparr>override_active := False, override_until := None\<rparr>
       \<and> (dict_get sch (day_name now) = None \<longrightarrow> fst (get_current_setpoint self now) = Inr None)
       \<and> (\<forall>v. dict_get sch (day_name now) = Some v \<longrightarrow>
            (\<exists>evs. v = YList evs \<and>
               (times_parse evs \<longrightarrow>
                  (\<exists>r. fst (get_current_setpoint self now) = Inr r
                       \<and> latest_not_after evs (time_part now) r))))
       \<and> fst (get_current_setpoint scenario_obj (monday_at 8 0)) = Inr (Some event_0600)
       \<and> fst (get_current_setpoint scenario_obj (monday_at 23 0)) = Inr (Some event_2200)
       \<and> fst (get_current_setpoint scenario_obj (monday_at 5 0)) = Inr None"
proof -
  let ?self' = "self\<lparr>override_active := False, override_until := None\<rparr>"
  have cd: "check_days sch" using loaded by (rule parse_schedule_checked)
  have run: "get_current_setpoint self now =
      (case dict_get sch (day_name now) of
         None \<Rightarrow> (Inr None, ?self')
       | Some (YList day_events) \<Rightarrow>
           (case sorted_events day_events of
              Inl e \<Rightarrow> (Inl e, ?self')
            | Inr events \<Rightarrow> (select_event (time_part now) events None, ?self'))
       | Some _ \<Rightarrow> (Inl TypeError, ?self'))"
    using free installed nonempty
    by (cases "override_until self") (auto simp: get_current_setpoint_def unsuppressed_def Let_def)
  have clears: "snd (get_current_setpoint self now) = ?self'"
    unfolding run by (simp split: option.splits yaml.splits sum.splits)
  have absent: "dict_get sch (day_name now) = None \<longrightarrow> fst (get_current_setpoint self now) = Inr None"
    unfolding run by simp
  have present: "\<forall>v. dict_get sch (day_name now) = Some v \<longrightarrow>
            (\<exists>evs. v = YList evs \<and>
               (times_parse evs \<longrightarrow>
                  (\<exists>r. fst (get_current_setpoint self now) = Inr r
                       \<and> latest_not_after evs (time_part now) r)))"
  proof (intro allI impI)
    fix v assume v: "dict_get sch (day_name now) = Some v"
    then obtain evs where evs: "v = YList evs"
      using check_days_lookup [OF cd] by (auto simp: dict_get_def)
    have "times_parse evs \<longrightarrow>
            (\<exists>r. fst (get_current_setpoint self now) = Inr r
                 \<and> latest_not_after evs (time_part now) r)"
    proof
      assume tp: "times_parse evs"
      have "fst (get_current_setpoint self now)
              = select_event (time_part now) (sort_key event_key evs) None"
        unfolding run using v evs sorted_events_parse [OF tp] by simp
      with select_event_latest [OF tp, of "time_part now"]
      show "\<exists>r. fst (get_current_setpoint self now) = Inr r
                 \<and> latest_not_after evs (time_part now) r" by simp
    qed
    with evs show "\<exists>evs. v = YList evs \<and>
               (times_parse evs \<longrightarrow>
                  (\<exists>r. fst (get_current_setpoint self now) = Inr r
                       \<and> latest_not_after evs (time_part now) r))" by blast
  qed
  from clears absent present scenario_0800 scenario_2300 scenario_0500
  show ?thesis by blast
qed

text \<open>
  The theorem of claim C6 at the scenario schedule with an override that expired at
  07:00, evaluated on Monday 08:00.
\<close>

theorem evaluate_selects_latest_event_witness:
  "parse_schedule (constant_loader (YDict scenario_schedule)) (Some ''monday: ...'')
     = Some scenario_schedule
   \<and> unsuppressed expired_obj (monday_at 8 0)
   \<and> snd (get_current_setpoint expired_obj (monday_at 8 0)) = scenario_obj
   \<and> times_parse [event_0600, event_2200]
   \<and> (\<exists>r. fst (get_current_setpoint expired_obj (monday_at 8 0)) = Inr r
          \<and> latest_not_after [event_0600, event_2200] (8, 0, 0, 0) r)"
proof -
  have l: "parse_schedule (constant_loader (YDict scenario_schedule)) (Some ''monday: ...'')
     = Some scenario_schedule"
    by (simp add: parse_schedule_def constant_loader_def scenario_schedule_def event_0600_def
        event_2200_def event_ok_def dict_get_def)
  have n: "scenario_schedule \<noteq> []" by (simp add: scenario_schedule_def)
  have i: "schedule expired_obj = Some scenario_schedule" by (simp add: expired_obj_def)
  have u: "unsuppressed expired_obj (monday_at 8 0)"
    by (simp add: unsuppressed_def expired_obj_def monday_at_def dt_less_def)
  have d: "dict_get scenario_schedule (day_name (monday_at 8 0)) = Some (YList [event_0600, event_2200])"
    by (simp add: scenario_schedule_def dict_get_def day_name_def weekday_def monday_at_def)
  have t: "times_parse [event_0600, event_2200]"
    by (simp add: times_parse_def event_0600_def event_2200_def eval_time)
  have e: "expired_obj\<lparr>override_active := False, override_until := None\<rparr> = scenario_obj"
    by (simp add: expired_obj_def scenario_obj_def)
  have m: "time_part (monday_at 8 0) = (8, 0, 0, 0)" by (simp add: monday_at_def)
  from evaluate_selects_latest_event [OF l n i u] d t e m l u
  show ?thesis by auto
qed

text \<open>
  Claim C6 as stated fails on two loaded schedules: the empty mapping is loaded, and
  evaluation returns before it clears an expired override; a schedule whose event has the
  time field "abc" is loaded, and evaluation raises \<open>ValueError\<close> instead of
  returning.
\<close>

theorem evaluate_empty_or_unparseable:
  "parse_schedule (constant_loader (YDict [])) (Some ''{}'') = Some []
   \<and> unsuppressed \<lparr>schedule = Some [], override_active = True, override_until = Some (monday_at 7 0)\<rparr> (monday_at 8 0)
   \<and> snd (get_current_setpoint
        \<lparr>schedule = Some [], override_active = True, override_until = Some (monday_at 7 0)\<rparr>
        (monday_at 8 0))
       = \<lparr>schedule = Some [], override_active = True, override_until = Some (monday_at 7 0)\<rparr>
   \<and> parse_schedule (constant_loader (YDict bad_time_schedule)) (Some ''monday: [{time: abc, temperature: 20}]'')
       = Some bad_time_schedule
   \<and> fst (get_current_setpoint
        \<lparr>schedule = Some bad_time_schedule, override_active = False, override_until = None\<rparr>
        (monday_at 8 0)) = Inl ValueError"
  by (simp add: parse_schedule_def constant_loader_def unsuppressed_def bad_time_schedule_def
      bad_time_event_def event_ok_def eval_schedule eval_time)

section \<open>Properties of store.py\<close>

text \<open>
  Claim C9. For every runtime ledger that JSON represents faithfully, a save whose write
  goes through followed by a load returns the same ledger, with the same day keys and the
  same hour totals. The load reads the file the save wrote: the result is the same
  through any store object, whatever that object held, and whatever the saving object
  and the file held before.
\<close>

theorem save_then_load_round_trip:
  assumes "json_load (json_dump d) = Some d"
  shows "async_load json_load loader (snd (async_save json_dump Written d saver disk))
         = (d, loader\<lparr>store_data := d\<rparr>)"
  using assms by (simp add: async_save_def async_load_def)

text \<open>
  The theorem of claim C9 at a ledger with one day, saved through one store object and
  loaded through another that held a different ledger, for a codec that keeps the
  ledger as it is.
\<close>

theorem save_then_load_round_trip_witness:
  "Some (id example_ledger) = Some example_ledger
   \<and> async_load Some \<lparr>store_data = stale_ledger\<rparr>
         (snd (async_save id Written example_ledger \<lparr>store_data = []\<rparr> None))
       = (example_ledger, \<lparr>store_data = example_ledger\<rparr>)"
  using save_then_load_round_trip
          [of Some id example_ledger "\<lparr>store_data = stale_ledger\<rparr>" "\<lparr>store_data = []\<rparr>" None]
  by simp

section \<open>Properties of climate.py\<close>

lemmas eval_guard = async_check_safety_temp_def hvac_mode_def current_temperature_def
  activate_safety_def release_safety_def dropped_def create_notification_def
  example_thermostat_def device_def HVACMode_OFF_def HVACMode_HEAT_def HVACMode_COOL_def
  HYSTERESIS_BUFFER_def

text \<open>
  The name \<open>datetime\<close> is not bound in climate.py, so \<open>datetime.now()\<close> raises there,
  whatever the clock reads.
\<close>

lemma datetime_unbound: "datetime_now clock = Inl NameError"
  by (simp add: datetime_now_def global_name_def climate_globals_def)

subsection \<open>The safety guard\<close>

text \<open>
  Claim C1 at min bound 15 in the Normal state with mode Off and temperature 14: the
  guard transitions to SafetyOverride(Heat) and makes no service call at all. The calls
  of \<open>async_set_hvac_mode\<close> and \<open>async_set_temperature\<close>, and the call of
  \<open>hass.services.async_call\<close> for the notification, are bare calls of coroutine functions
  in methods that are not \<open>async\<close>, so no set-mode or set-temperature command is issued
  and no notification is emitted.
\<close>

theorem activation_issues_no_command:
  "\<not> safety_active cold_room \<and> hvac_mode cold_room = Some HVACMode_OFF
   \<and> safety_min_temp cold_room = Some 15 \<and> current_temperature cold_room = Some 14
   \<and> async_check_safety_temp cold_room =
       (Inr (), cold_room\<lparr>safety_active := True, safety_triggered_mode := Some HVACMode_HEAT\<rparr>)
   \<and> service_calls (snd (async_check_safety_temp cold_room)) = []"
  by (simp add: cold_room_def eval_guard)

text \<open>
  Claim C2 at min bound 15, SafetyOverride(Heat), mode Heat and temperature 16.1: the
  guard transitions to Normal and makes no service call; no set-mode Off command is
  issued, because the coroutine of \<open>async_set_hvac_mode\<close> is dropped.
\<close>

theorem release_issues_no_command:
  "safety_active heating_recovered
   \<and> safety_triggered_mode heating_recovered = Some HVACMode_HEAT
   \<and> hvac_mode heating_recovered = Some HVACMode_HEAT
   \<and> safety_min_temp heating_recovered = Some 15
   \<and> current_temperature heating_recovered = Some (161 / 10)
   \<and> async_check_safety_temp heating_recovered =
     (Inr (), heating_recovered\<lparr>safety_active := False, safety_triggered_mode := None\<rparr>)
   \<and> service_calls (snd (async_check_safety_temp heating_recovered)) = []"
  by (simp add: heating_recovered_def eval_guard)

text \<open>
  Claim C3, as amended. In a SafetyOverride(m) state where the current mode is reported,
  differs from m, and the current temperature is known, the guard transitions to Normal
  (flag and triggered mode cleared), no device command is issued and every other field
  is unchanged.
\<close>

theorem manual_override_releases:
  assumes "safety_active self" and "safety_triggered_mode self = Some m"
    and "hvac_mode self = Some mode" and "mode \<noteq> m"
    and "current_temperature self = Some temp"
  shows "async_check_safety_temp self =
           (Inr (), self\<lparr>safety_active := False, safety_triggered_mode := None\<rparr>)"
  using assms by (simp add: async_check_safety_temp_def create_notification_def dropped_def)

text \<open>
  The theorem of claim C3 at SafetyOverride(Heat) with the device reporting mode Off
  and temperature 14.
\<close>

theorem manual_override_releases_witness:
  "safety_active heating_switched_off
   \<and> safety_triggered_mode heating_switched_off = Some HVACMode_HEAT
   \<and> hvac_mode heating_switched_off = Some ''off'' \<and> ''off'' \<noteq> HVACMode_HEAT
   \<and> current_temperature heating_switched_off = Some 14
   \<and> async_check_safety_temp heating_switched_off =
       (Inr (), heating_switched_off\<lparr>safety_active := False, safety_triggered_mode := None\<rparr>)"
proof -
  have p: "safety_active heating_switched_off
      \<and> safety_triggered_mode heating_switched_off = Some HVACMode_HEAT
      \<and> hvac_mode heating_switched_off = Some ''off'' \<and> ''off'' \<noteq> HVACMode_HEAT
      \<and> current_temperature heating_switched_off = Some 14"
    by (simp add: heating_switched_off_def example_thermostat_def device_def hvac_mode_def
        current_temperature_def HVACMode_HEAT_def)
  with manual_override_releases [of heating_switched_off HVACMode_HEAT "''off''" 14]
  show ?thesis by simp
qed

text \<open>
  Claim C3 as stated fails when the temperature is not known: in SafetyOverride(Heat)
  with the device reporting the state "unavailable" and no current temperature, the mode
  differs from Heat and the guard returns at its first check, leaving the safety state
  active.
\<close>

theorem unknown_temperature_keeps_safety:
  "safety_active heating_unavailable
   \<and> safety_triggered_mode heating_unavailable = Some HVACMode_HEAT
   \<and> hvac_mode heating_unavailable = Some ''unavailable''
   \<and> ''unavailable'' \<noteq> HVACMode_HEAT
   \<and> async_check_safety_temp heating_unavailable = (Inr (), heating_unavailable)"
  by (simp add: heating_unavailable_def eval_guard)

subsection \<open>Schedule ticks, runtime accounting and the override set by commands\<close>

text \<open>
  Claim C7 at a schedule whose Monday 06:00 event carries mode heat and temperature 20,
  with the device in mode off at target 18, on Monday 08:00: evaluation returns the
  event, its mode differs from the current mode, and the tick raises \<open>NameError\<close> inside
  \<open>async_set_hvac_mode\<close> without any service call.
\<close>

theorem scheduled_mode_raises:
  "fst (get_current_setpoint (sched scheduled_off) (monday_at 8 0)) = Inr (Some event_heat_0600)
   \<and> hvac_mode scheduled_off = Some ''off''
   \<and> fst (async_apply_schedule (monday_at 8 0) (monday_at 8 0) scheduled_off) = Inl NameError
   \<and> service_calls (snd (async_apply_schedule (monday_at 8 0) (monday_at 8 0) scheduled_off)) = []"
  by (simp add: scheduled_off_def example_thermostat_def device_def event_heat_0600_def
      async_apply_schedule_def apply_mode_def await_def async_set_hvac_mode_def
      get_next_schedule_time_def datetime_unbound hvac_mode_def target_temperature_def
      get_or_none_def differs_from_mode_def differs_from_temp_def lower_def lower_char_def
      HVACMode_values_def eval_schedule eval_time)

text \<open>
  Claim C8 at a transition from Heating, observed since Monday 08:00, to Idle at 09:30:
  the update raises \<open>NameError\<close> at its first statement and the ledger stays empty.
\<close>

theorem runtime_update_raises:
  "last_hvac_action was_heating = Some HVACAction_HEATING
   \<and> last_action_timestamp was_heating = Some (monday_at 8 0)
   \<and> async_update_runtime (device ''heat'' (Some 20) (Some 20) (Some ''idle'')) (monday_at 9 30)
        was_heating = (Inl NameError, was_heating)
   \<and> runtime_data was_heating = []"
  by (simp add: was_heating_def example_thermostat_def async_update_runtime_def datetime_unbound)

text \<open>
  Claim C10 at min bound 15 and temperature 14 with the scenario schedule: awaited, the
  two public operations raise \<open>NameError\<close> before they set the override or call the
  device; the safety activation itself makes no service call and leaves the override
  unset, so that evaluation a minute later still returns the 06:00 event.
\<close>

theorem safety_commands_set_no_override:
  "await (async_set_hvac_mode HVACMode_HEAT) (monday_at 8 0) cold_room_scheduled
     = (Inl NameError, cold_room_scheduled)
   \<and> await (async_set_temperature (YFloat 15)) (monday_at 8 0) cold_room_scheduled
     = (Inl NameError, cold_room_scheduled)
   \<and> safety_active (snd (async_check_safety_temp cold_room_scheduled))
   \<and> service_calls (snd (async_check_safety_temp cold_room_scheduled)) = []
   \<and> sched (snd (async_check_safety_temp cold_room_scheduled)) = scenario_obj
   \<and> fst (get_current_setpoint (sched (snd (async_check_safety_temp cold_room_scheduled)))
            (monday_at 8 1)) = Inr (Some event_0600)"
proof -
  have a: "await (async_set_hvac_mode HVACMode_HEAT) (monday_at 8 0) cold_room_scheduled
     = (Inl NameError, cold_room_scheduled)"
    by (simp add: await_def async_set_hvac_mode_def get_next_schedule_time_def datetime_unbound)
  have b: "await (async_set_temperature (YFloat 15)) (monday_at 8 0) cold_room_scheduled
     = (Inl NameError, cold_room_scheduled)"
    by (simp add: await_def async_set_temperature_def get_next_schedule_time_def datetime_unbound)
  have c: "snd (async_check_safety_temp cold_room_scheduled)
      = cold_room_scheduled\<lparr>safety_active := True, safety_triggered_mode := Some HVACMode_HEAT\<rparr>"
    by (simp add: cold_room_scheduled_def eval_guard)
  have d: "sched cold_room_scheduled = scenario_obj"
    by (simp add: cold_room_scheduled_def example_thermostat_def scenario_obj_def)
  have e: "fst (get_current_setpoint scenario_obj (monday_at 8 1)) = Inr (Some event_0600)"
    by (simp add: scenario_obj_def scenario_schedule_def event_0600_def event_2200_def
      eval_schedule eval_time)
  have f: "service_calls cold_room_scheduled = []"
    by (simp add: cold_room_scheduled_def example_thermostat_def)
  from a b c d e f show ?thesis by simp
qed

end
